theory Spec2Isabelle
  imports Main "HOL-Library.Word" "HOL-Library.Sublist"
begin

unbundle bit_operations_syntax

section \<open>Host objects and the program state\<close>

text \<open>
  A \<^verbatim>\<open>PyObject*\<close> handle. The source compares handles by pointer equality only,
  against the null pointer and against the interpreter's exception classes; every other
  object is an opaque address. A message installed by the interpreter is a string object.
\<close>

datatype PyObject_ptr =
    nullptr
  | PyExc_Exception
  | PyExc_RuntimeError
  | PyExc_KeyboardInterrupt
  | PyExc_AssertionError
  | PyExc_FutureWarning
  | PyUnicode string
  | PyObj nat

text \<open>The interpreter's error indicator: the pending (type, value, traceback) triple.\<close>

record error_indicator =
  curexc_type :: PyObject_ptr
  curexc_value :: PyObject_ptr
  curexc_traceback :: PyObject_ptr

text \<open>
  Everything outside the error classes that their methods read or write:
  the interpreter's error indicator \<open>tstate\<close>, the warning filter of the interpreter and the
  warnings it has shown, the progress manager's count of \<^verbatim>\<open>set_status_cancelled()\<close> calls,
  the team size read by \<^verbatim>\<open>dt::num_threads_in_team()\<close>, whether the build is a debug build,
  the number of assertion failures reported, and whether the next rendering of a message
  stream runs out of memory (\<open>Some m\<close>: it throws a standard exception whose
  \<^verbatim>\<open>what()\<close> is \<open>m\<close>).
\<close>

record world =
  tstate :: error_indicator
  warn_escalates :: "PyObject_ptr \<Rightarrow> string \<Rightarrow> bool"
  warnings_shown :: "(PyObject_ptr \<times> string) list"
  status_cancelled_calls :: nat
  num_threads_in_team :: nat
  debug_build :: bool
  assertion_failures :: nat
  alloc_failure :: "string option"

subsection \<open>The host interfaces\<close>

text \<open>
  Modelled from the spec: \<^verbatim>\<open>PyErr_Occurred\<close> of the interpreter, which is not part of this
  repository. It returns the type handle of the pending error, the null pointer when
  nothing is pending.
\<close>

definition PyErr_Occurred :: "world \<Rightarrow> PyObject_ptr" where
  "PyErr_Occurred w = curexc_type (tstate w)"

text \<open>
  Modelled from the spec: \<^verbatim>\<open>PyErr_Fetch\<close> of the interpreter. Section 6 of the spec:
  fetch-pending returns the pending triple, or the empty one, and clears the ambient
  state.
\<close>

definition PyErr_Fetch :: "world \<Rightarrow> (PyObject_ptr \<times> PyObject_ptr \<times> PyObject_ptr) \<times> world" where
  "PyErr_Fetch w =
     ((curexc_type (tstate w), curexc_value (tstate w), curexc_traceback (tstate w)),
      w\<lparr>tstate := \<lparr>curexc_type = nullptr, curexc_value = nullptr, curexc_traceback = nullptr\<rparr>\<rparr>)"

text \<open>
  Modelled from the spec: \<^verbatim>\<open>PyErr_Restore\<close> of the interpreter. Section 6 of the spec:
  restore-pending reinstalls a triple as the ambient state, whatever was pending before.
\<close>

definition PyErr_Restore :: "PyObject_ptr \<Rightarrow> PyObject_ptr \<Rightarrow> PyObject_ptr \<Rightarrow> world \<Rightarrow> world" where
  "PyErr_Restore t v tb w =
     w\<lparr>tstate := \<lparr>curexc_type = t, curexc_value = v, curexc_traceback = tb\<rparr>\<rparr>"

text \<open>
  Modelled from the spec: \<^verbatim>\<open>PyErr_SetString\<close> of the interpreter. Section 6 of the spec:
  the error sink accepts a kind and a rendered message and installs them as the pending
  failure.
\<close>

definition PyErr_SetString :: "PyObject_ptr \<Rightarrow> string \<Rightarrow> world \<Rightarrow> world" where
  "PyErr_SetString cls msg w =
     w\<lparr>tstate := \<lparr>curexc_type = cls, curexc_value = PyUnicode msg, curexc_traceback = nullptr\<rparr>\<rparr>"

text \<open>
  Modelled from the spec: the warning channel \<^verbatim>\<open>PyErr_WarnEx\<close> of the interpreter.
  Section 6 of the spec: it accepts a kind, a message and a stack level and returns whether
  the ambient policy escalated the warning to an error; the source's comment adds that it
  returns 0 normally and -1 when warnings are converted into errors, the error being then
  already set in the interpreter.
\<close>

definition PyErr_WarnEx :: "PyObject_ptr \<Rightarrow> string \<Rightarrow> int \<Rightarrow> world \<Rightarrow> int \<times> world" where
  "PyErr_WarnEx category msg stack_level w =
     (if warn_escalates w category msg
      then (- 1, PyErr_SetString category msg w)
      else (0, w\<lparr>warnings_shown := warnings_shown w @ [(category, msg)]\<rparr>))"

text \<open>
  Modelled from the spec: \<^verbatim>\<open>set_status_cancelled()\<close> of the progress manager
  (\<^verbatim>\<open>progress/progress_manager.h\<close> is not among the sources). Section 6 of the spec: the
  cancellation marker has a mark-cancelled call; the model counts the calls.
\<close>

definition set_status_cancelled :: "world \<Rightarrow> world" where
  "set_status_cancelled w = w\<lparr>status_cancelled_calls := Suc (status_cancelled_calls w)\<rparr>"

text \<open>
  Modelled from the spec: the macro \<^verbatim>\<open>wassert\<close> (\<^verbatim>\<open>utils/assert.h\<close> is not among the
  sources). Sections 4.1 and 8 of the spec: the condition is asserted in debug builds
  only, where a false condition is reported as an invariant violation; the macro does not
  unwind, since its caller is \<^verbatim>\<open>noexcept\<close>.
\<close>

definition wassert :: "bool \<Rightarrow> world \<Rightarrow> world" where
  "wassert cond w =
     (if debug_build w \<and> \<not> cond
      then w\<lparr>assertion_failures := Suc (assertion_failures w)\<rparr>
      else w)"

text \<open>
  \<^verbatim>\<open>std::string::c_str()\<close> read as a C string: the bytes before the first NUL.
\<close>

definition c_str :: "string \<Rightarrow> string" where
  "c_str s = takeWhile (\<lambda>c. c \<noteq> CHR 0x00) s"

section \<open>Bulk escaping: \<^verbatim>\<open>escape_backticks\<close>\<close>

definition escape_backticks :: "string \<Rightarrow> string" where
  "escape_backticks str =
     (let count = fold (\<lambda>c n. n + (if c = CHR 0x60 \<or> c = CHR 0x5C then 1 else 0)) str (0::nat)
      in if count = 0 then str
         else fold (\<lambda>c out. (if c = CHR 0x60 \<or> c = CHR 0x5C then out @ [CHR 0x5C] else out) @ [c])
                str [])"

section \<open>The error object: \<^verbatim>\<open>Error\<close>\<close>

text \<open>
  \<open>pycls\<close> (the member \<^verbatim>\<open>pycls_\<close>) is the exception class, \<open>error\<close> the content of the
  message stream.
\<close>

record Error =
  pycls :: PyObject_ptr
  error :: string

definition Error_ctor :: "PyObject_ptr \<Rightarrow> Error" where
  "Error_ctor exception_class = \<lparr>pycls = exception_class, error = []\<rparr>"

definition Error_to_string :: "Error \<Rightarrow> string" where
  "Error_to_string e = error e"

definition Error_lshift_string :: "Error \<Rightarrow> string \<Rightarrow> Error" where
  "Error_lshift_string e v = e\<lparr>error := error e @ v\<rparr>"

type_synonym uint8_t = "8 word"

text \<open>
  \<^verbatim>\<open>Error::operator<<(char)\<close>. The digit is computed in \<^verbatim>\<open>int\<close> and cast to
  \<^verbatim>\<open>char\<close>: \<^verbatim>\<open>(d <= 9 ? '0' : 'a' - 10) + d\<close>.
\<close>

definition hex_char :: "uint8_t \<Rightarrow> char" where
  "hex_char d = char_of ((if d \<le> 9 then 48 else 97 - 10) + uint d)"

definition Error_lshift_char :: "Error \<Rightarrow> char \<Rightarrow> Error" where
  "Error_lshift_char e c =
     (let uc = (of_char c :: uint8_t) in
      if uc < 0x20 \<or> uc \<ge> 0x80 \<or> uc = 0x60 \<or> uc = 0x5C then
        (let e1 = e\<lparr>error := error e @ [CHR 0x5C]\<rparr> in
         if c = CHR 0x0A then e1\<lparr>error := error e1 @ ''n''\<rparr>
         else if c = CHR 0x0D then e1\<lparr>error := error e1 @ ''r''\<rparr>
         else if c = CHR 0x09 then e1\<lparr>error := error e1 @ ''t''\<rparr>
         else if c = CHR 0x5C then e1\<lparr>error := error e1 @ [CHR 0x5C]\<rparr>
         else if c = CHR 0x60 then e1\<lparr>error := error e1 @ [CHR 0x60]\<rparr>
         else
           (let d1 = drop_bit 4 uc;
                d2 = uc AND 15
            in e1\<lparr>error := error e1 @ [CHR 0x5C, CHR ''x''] @ [hex_char d1] @ [hex_char d2]\<rparr>))
      else e\<lparr>error := error e @ [c]\<rparr>)"

definition Error_is_keyboard_interrupt :: "Error \<Rightarrow> bool" where
  "Error_is_keyboard_interrupt e = False"

subsection \<open>Exceptions in flight\<close>

text \<open>
  The records of the derived class \<^verbatim>\<open>PyError\<close>: the base fields and the three captured
  handles (declared \<^verbatim>\<open>mutable\<close>, so that the \<^verbatim>\<open>const\<close> method \<^verbatim>\<open>to_python\<close> may clear
  them).
\<close>

record PyError = Error +
  exc_type :: PyObject_ptr
  exc_value :: PyObject_ptr
  exc_traceback :: PyObject_ptr

text \<open>
  What a \<^verbatim>\<open>const std::exception&\<close> can refer to: an \<^verbatim>\<open>Error\<close> (a \<^verbatim>\<open>Warning\<close> is one too),
  a \<^verbatim>\<open>PyError\<close>, or an exception of the standard library, given by its \<^verbatim>\<open>what()\<close>.
\<close>

datatype exception =
    Exc_Error Error
  | Exc_PyError PyError
  | Exc_std string

text \<open>
  \<^verbatim>\<open>error.str()\<close> copies the content of the stream into a new string; the allocation
  throws when the state says so.
\<close>

definition ostringstream_str :: "Error \<Rightarrow> world \<Rightarrow> exception + string" where
  "ostringstream_str e w =
     (case alloc_failure w of
        Some m \<Rightarrow> Inl (Exc_std m)
      | None \<Rightarrow> Inr (error e))"

text \<open>
  \<^verbatim>\<open>try { body } catch (const std::exception& e) { handler }\<close>: every exception of the
  model derives from \<^verbatim>\<open>std::exception\<close>, so the handler takes whatever the body throws;
  what the handler throws itself propagates.
\<close>

definition try_catch :: "(exception + 'a) \<Rightarrow> (exception \<Rightarrow> exception + 'a) \<Rightarrow> exception + 'a" where
  "try_catch body handler = (case body of Inl ex \<Rightarrow> handler ex | Inr v \<Rightarrow> Inr v)"

text \<open>
  \<^verbatim>\<open>e.what()\<close> in the handler of \<^verbatim>\<open>Error::to_python\<close>. The declaration of \<^verbatim>\<open>Error\<close>
  (\<^verbatim>\<open>utils/exceptions.h\<close>) is not among the sources, so \<^verbatim>\<open>what()\<close> of the repository's own
  classes is a parameter \<open>own_what\<close> of the model.
\<close>

fun what :: "(Error \<Rightarrow> string) \<Rightarrow> exception \<Rightarrow> string" where
  "what own_what (Exc_std m) = m"
| "what own_what (Exc_Error e) = own_what e"
| "what own_what (Exc_PyError p) = own_what (Error.truncate p)"

definition Error_to_python :: "(Error \<Rightarrow> string) \<Rightarrow> Error \<Rightarrow> world \<Rightarrow> exception + world" where
  "Error_to_python own_what e w =
     try_catch
       (case ostringstream_str e w of
          Inl ex \<Rightarrow> Inl ex
        | Inr errstr \<Rightarrow> Inr (PyErr_SetString (pycls e) (c_str errstr) w))
       (\<lambda>ex. Inr (PyErr_SetString PyExc_RuntimeError (what own_what ex) w))"

section \<open>The captured external error: \<^verbatim>\<open>PyError\<close>\<close>

definition PyError_is_keyboard_interrupt :: "PyError \<Rightarrow> bool" where
  "PyError_is_keyboard_interrupt p = (exc_type p = PyExc_KeyboardInterrupt)"

definition PyError_is_assertion_error :: "PyError \<Rightarrow> bool" where
  "PyError_is_assertion_error p = (exc_type p = PyExc_AssertionError)"

text \<open>
  The constructor: the base is \<^verbatim>\<open>Error(nullptr)\<close>; the call of the virtual
  \<^verbatim>\<open>is_keyboard_interrupt()\<close> in the body of the constructor is the one of \<^verbatim>\<open>PyError\<close>.
\<close>

definition PyError_ctor :: "world \<Rightarrow> PyError \<times> world" where
  "PyError_ctor w =
     (let ((t, v, tb), w1) = PyErr_Fetch w;
          p = \<lparr>pycls = nullptr, error = [], exc_type = t, exc_value = v, exc_traceback = tb\<rparr>
      in if PyError_is_keyboard_interrupt p then (p, set_status_cancelled w1) else (p, w1))"

definition PyError_to_python :: "PyError \<Rightarrow> world \<Rightarrow> PyError \<times> world" where
  "PyError_to_python p w =
     (let w1 = PyErr_Restore (exc_type p) (exc_value p) (exc_traceback p) w
      in (p\<lparr>exc_type := nullptr, exc_value := nullptr, exc_traceback := nullptr\<rparr>, w1))"

section \<open>Warnings: \<^verbatim>\<open>Warning::emit\<close>\<close>

text \<open>
  A \<^verbatim>\<open>Warning\<close> is an \<^verbatim>\<open>Error\<close> with no field of its own. The result of \<open>emit\<close> is
  \<open>Inl\<close> of the exception thrown, or \<open>Inr ()\<close> for a normal return.
\<close>

type_synonym Warning = Error

definition Warning_emit :: "Warning \<Rightarrow> world \<Rightarrow> (exception + unit) \<times> world" where
  "Warning_emit wn w =
     (case ostringstream_str wn w of
        Inl ex \<Rightarrow> (Inl ex, w)
      | Inr errstr \<Rightarrow>
          (let (ret, w1) = PyErr_WarnEx (pycls wn) (c_str errstr) 1 w
           in if ret \<noteq> 0
              then (let (p, w2) = PyError_ctor w1 in (Inl (Exc_PyError p), w2))
              else (Inr (), w1)))"

section \<open>The suppression guard: \<^verbatim>\<open>HidePythonError\<close>\<close>

text \<open>The members \<^verbatim>\<open>ptype_\<close>, \<^verbatim>\<open>pvalue_\<close> and \<^verbatim>\<open>ptraceback_\<close>.\<close>

record HidePythonError =
  ptype :: PyObject_ptr
  pvalue :: PyObject_ptr
  ptraceback :: PyObject_ptr

definition HidePythonError_ctor :: "world \<Rightarrow> HidePythonError \<times> world" where
  "HidePythonError_ctor w =
     (if PyErr_Occurred w \<noteq> nullptr
      then (let ((t, v, tb), w1) = PyErr_Fetch w
            in (\<lparr>ptype = t, pvalue = v, ptraceback = tb\<rparr>, w1))
      else (\<lparr>ptype = nullptr, pvalue = nullptr, ptraceback = nullptr\<rparr>, w))"

definition HidePythonError_dtor :: "HidePythonError \<Rightarrow> world \<Rightarrow> world" where
  "HidePythonError_dtor h w =
     (if ptype h \<noteq> nullptr
      then PyErr_Restore (ptype h) (pvalue h) (ptraceback h) w
      else w)"

section \<open>Reporting: \<^verbatim>\<open>exception_to_python\<close>\<close>

text \<open>\<^verbatim>\<open>is_string_empty\<close>: \<open>None\<close> is the null pointer.\<close>

fun is_blank :: "string \<Rightarrow> bool" where
  "is_blank [] = True"
| "is_blank (c # msg) =
     (if \<not> (c = CHR '' '' \<or> c = CHR 0x09 \<or> c = CHR 0x0A \<or> c = CHR 0x0D) then False
      else is_blank msg)"

definition is_string_empty :: "string option \<Rightarrow> bool" where
  "is_string_empty msg = (case msg of None \<Rightarrow> True | Some m \<Rightarrow> is_blank m)"

text \<open>
  The result is \<open>Inl\<close> when an exception leaves the function (\<^verbatim>\<open>noexcept\<close> would end the
  process), and otherwise the exception object, whose \<^verbatim>\<open>mutable\<close> handles
  \<^verbatim>\<open>PyError::to_python\<close> clears, with the new state.
\<close>

definition exception_to_python ::
  "(Error \<Rightarrow> string) \<Rightarrow> exception \<Rightarrow> world \<Rightarrow> exception + (exception \<times> world)" where
  "exception_to_python own_what e w =
     (let w1 = wassert (num_threads_in_team w = 0) w in
      case e of
        Exc_Error err \<Rightarrow>
          (case Error_to_python own_what err w1 of
             Inl ex \<Rightarrow> Inl ex
           | Inr w2 \<Rightarrow> Inr (e, w2))
      | Exc_PyError p \<Rightarrow>
          (let (p', w2) = PyError_to_python p w1 in Inr (Exc_PyError p', w2))
      | Exc_std msg \<Rightarrow>
          (if PyErr_Occurred w1 = nullptr then
             (if is_string_empty (Some msg)
              then Inr (e, PyErr_SetString PyExc_Exception ''unknown error'' w1)
              else Inr (e, PyErr_SetString PyExc_Exception msg w1))
           else Inr (e, w1)))"

section \<open>Thread jobs: \<^verbatim>\<open>ThreadJob::execute_in_current_thread\<close>\<close>

text \<open>
  \<^verbatim>\<open>thread_task\<close> and \<^verbatim>\<open>ThreadJob\<close> are abstract classes: an object is the record of its
  virtual methods, each a function on the program state \<open>'s\<close> (the job's own cursor
  included). \<^verbatim>\<open>execute\<close> returns \<open>Some ex\<close> when it throws \<open>ex\<close>, with the state it leaves
  behind. \<^verbatim>\<open>get_next_task\<close> returns \<open>None\<close> for the null pointer.
\<close>

typedecl ThreadWorker

record ('s, 'e) thread_task =
  execute :: "ThreadWorker option \<Rightarrow> 's \<Rightarrow> 'e option \<times> 's"

record ('s, 'e) ThreadJob =
  get_next_task :: "nat \<Rightarrow> 's \<Rightarrow> ('s, 'e) thread_task option \<times> 's"
  abort_execution :: "'s \<Rightarrow> 's"

text \<open>The default \<^verbatim>\<open>ThreadJob::abort_execution\<close> does nothing.\<close>

definition ThreadJob_abort_execution :: "'s \<Rightarrow> 's" where
  "ThreadJob_abort_execution s = s"

text \<open>
  The \<^verbatim>\<open>while (true)\<close> loop. It need not end (a job may hand out tasks forever), so the
  result is an option: \<open>None\<close> when the loop runs forever, \<open>Some (None, s)\<close> when it leaves
  through \<^verbatim>\<open>break\<close> in state \<open>s\<close>, \<open>Some (Some ex, s)\<close> when \<open>ex\<close> leaves the function.
\<close>

partial_function (option) execute_loop ::
  "('s, 'e) ThreadJob \<Rightarrow> nat \<Rightarrow> 's \<Rightarrow> ('e option \<times> 's) option" where
  "execute_loop job ith s =
     (case get_next_task job ith s of
        (None, s1) \<Rightarrow> Some (None, s1)
      | (Some task, s1) \<Rightarrow>
          (case execute task None s1 of
             (Some ex, s2) \<Rightarrow> Some (Some ex, s2)
           | (None, s2) \<Rightarrow> execute_loop job ith s2))"

declare execute_loop.simps [code]

text \<open>
  \<^verbatim>\<open>dt::this_thread_index()\<close> (\<^verbatim>\<open>parallel/api.h\<close> is not among the sources) is a parameter:
  the index of the calling thread in the current state. It is read once, before the loop.
\<close>

definition execute_in_current_thread ::
  "('s \<Rightarrow> nat) \<Rightarrow> ('s, 'e) ThreadJob \<Rightarrow> 's \<Rightarrow> ('e option \<times> 's) option" where
  "execute_in_current_thread this_thread_index job s =
     (let ith = this_thread_index s in execute_loop job ith s)"

text \<open>
  The run of the loop as a relation: \<open>pulled job ith s ts s'\<close> holds when, from state \<open>s\<close>,
  the successive calls \<^verbatim>\<open>get_next_task(ith)\<close> return the tasks \<open>ts\<close>, in this order, each
  executed right after it was pulled and none throwing, and \<open>s'\<close> is the state after the
  last of them.
\<close>

inductive pulled ::
  "('s, 'e) ThreadJob \<Rightarrow> nat \<Rightarrow> 's \<Rightarrow> ('s, 'e) thread_task list \<Rightarrow> 's \<Rightarrow> bool"
  for job ith where
  pulled_Nil: "pulled job ith s [] s"
| pulled_Cons:
    "get_next_task job ith s = (Some t, s1) \<Longrightarrow> execute t None s1 = (None, s2) \<Longrightarrow>
     pulled job ith s2 ts s' \<Longrightarrow> pulled job ith s (t # ts) s'"

code_pred pulled .

section \<open>The escaping rule as the spec words it\<close>

text \<open>
  Section 4.1 of the spec: any byte outside the printable-ASCII range, plus backtick and
  backslash, is escaped: newline, carriage return and tab as backslash and \<open>n\<close>, \<open>r\<close>, \<open>t\<close>,
  backslash as two backslashes, backtick as backslash and backtick, anything else as
  backslash, \<open>x\<close> and two lowercase hexadecimal digits. Printable ASCII is the range from
  the space \<open>0x20\<close> to the tilde \<open>0x7E\<close>. These definitions say what the spec says; the code
  is \<open>Error_lshift_char\<close> and \<open>escape_backticks\<close> above.
\<close>

definition hex_digit :: "nat \<Rightarrow> char" where
  "hex_digit d = ''0123456789abcdef'' ! d"

definition printable_ascii :: "char \<Rightarrow> bool" where
  "printable_ascii c = (0x20 \<le> (of_char c :: nat) \<and> (of_char c :: nat) \<le> 0x7E)"

definition spec_escape_char :: "char \<Rightarrow> string" where
  "spec_escape_char c =
     (if printable_ascii c \<and> c \<noteq> CHR 0x60 \<and> c \<noteq> CHR 0x5C then [c]
      else if c = CHR 0x0A then [CHR 0x5C, CHR ''n'']
      else if c = CHR 0x0D then [CHR 0x5C, CHR ''r'']
      else if c = CHR 0x09 then [CHR 0x5C, CHR ''t'']
      else if c = CHR 0x5C then [CHR 0x5C, CHR 0x5C]
      else if c = CHR 0x60 then [CHR 0x5C, CHR 0x60]
      else [CHR 0x5C, CHR ''x'', hex_digit (of_char c div 16), hex_digit (of_char c mod 16)])"

definition spec_escape :: "string \<Rightarrow> string" where
  "spec_escape s = concat (map spec_escape_char s)"

section \<open>Concrete states and jobs\<close>

text \<open>
  A debug build at rest: nothing pending, no worker active, a warning filter that lets
  every warning through, and memory available.
\<close>

definition idle_world :: world where
  "idle_world =
     \<lparr>tstate = \<lparr>curexc_type = nullptr, curexc_value = nullptr, curexc_traceback = nullptr\<rparr>,
      warn_escalates = (\<lambda>category msg. False),
      warnings_shown = [],
      status_cancelled_calls = 0,
      num_threads_in_team = 0,
      debug_build = True,
      assertion_failures = 0,
      alloc_failure = None\<rparr>"

text \<open>
  A job over the state \<open>(queue, total)\<close>: each pull takes the head \<open>x\<close> of the queue and
  returns a task that adds \<open>x\<close> to the total, or throws when \<open>x\<close> is zero.
\<close>

definition add_task :: "nat \<Rightarrow> (nat list \<times> nat, string) thread_task" where
  "add_task x =
     \<lparr>execute = (\<lambda>worker (q, total).
        if x = 0 then (Some ''zero'', (q, total)) else (None, (q, total + x)))\<rparr>"

definition queue_job :: "(nat list \<times> nat, string) ThreadJob" where
  "queue_job =
     \<lparr>get_next_task = (\<lambda>ith (q, total).
        case q of [] \<Rightarrow> (None, (q, total)) | x # q' \<Rightarrow> (Some (add_task x), (q', total))),
      abort_execution = ThreadJob_abort_execution\<rparr>"

section \<open>Verification: escaping\<close>

subsection \<open>Bulk escaping\<close>

lemma fold_count_zero:
  "fold (\<lambda>c n. n + (if c = CHR 0x60 \<or> c = CHR 0x5C then 1 else 0)) str (k::nat) = 0 \<longleftrightarrow>
   k = 0 \<and> (\<forall>c\<in>set str. c \<noteq> CHR 0x60 \<and> c \<noteq> CHR 0x5C)"
  by (induction str arbitrary: k) auto

lemma fold_escape_acc:
  "fold (\<lambda>c out. (if c = CHR 0x60 \<or> c = CHR 0x5C then out @ [CHR 0x5C] else out) @ [c]) str acc =
   acc @ concat (map (\<lambda>c. if c = CHR 0x60 \<or> c = CHR 0x5C then [CHR 0x5C, c] else [c]) str)"
  by (induction str arbitrary: acc) auto

lemma concat_map_unescaped:
  "\<forall>c\<in>set str. c \<noteq> CHR 0x60 \<and> c \<noteq> CHR 0x5C \<Longrightarrow>
   concat (map (\<lambda>c. if c = CHR 0x60 \<or> c = CHR 0x5C then [CHR 0x5C, c] else [c]) str) = str"
  by (induction str) auto

text \<open>
  C5, as the claim states it, fails: the claim has \<open>escape_backticks\<close> apply the
  character-level rule to every byte outside printable ASCII, so a newline would become
  backslash and \<open>n\<close>; the function returns the newline as it is.
\<close>

theorem escape_backticks_newline_counterexample:
  "escape_backticks [CHR 0x0A] \<noteq> spec_escape [CHR 0x0A]"
  by (simp add: escape_backticks_def spec_escape_def spec_escape_char_def printable_ascii_def)

text \<open>
  C5, amended: for every string, \<open>escape_backticks\<close> puts one backslash before each
  backtick and each backslash and copies every other byte as it is, the bytes outside
  printable ASCII included; for every string with no backtick and no backslash the result
  equals the input.
\<close>

theorem escape_backticks_prepends:
  "escape_backticks str =
     concat (map (\<lambda>c. if c = CHR 0x60 \<or> c = CHR 0x5C then [CHR 0x5C, c] else [c]) str) \<and>
   ((\<forall>c\<in>set str. c \<noteq> CHR 0x60 \<and> c \<noteq> CHR 0x5C) \<longrightarrow> escape_backticks str = str)"
  unfolding escape_backticks_def Let_def
  by (simp add: fold_count_zero fold_escape_acc concat_map_unescaped)

theorem escape_backticks_prepends_witness:
  "escape_backticks [CHR ''a'', CHR 0x0A, CHR 0xE9] = [CHR ''a'', CHR 0x0A, CHR 0xE9] \<and>
   escape_backticks [CHR ''a'', CHR 0x60, CHR 0x5C] =
     [CHR ''a'', CHR 0x5C, CHR 0x60, CHR 0x5C, CHR 0x5C]"
  using escape_backticks_prepends [of "[CHR ''a'', CHR 0x0A, CHR 0xE9]"]
    escape_backticks_prepends [of "[CHR ''a'', CHR 0x60, CHR 0x5C]"]
  by simp

subsection \<open>Appending one character\<close>

lemma of_char_less_256: "(of_char c :: nat) < 256"
proof -
  have "(of_char c :: nat) mod 256 < 256" by (rule mod_less_divisor) simp
  then show ?thesis by simp
qed

lemma unat_of_char: "unat (of_char c :: uint8_t) = of_char c"
proof -
  have "(of_char c :: uint8_t) = of_nat (of_char c)"
    by (simp add: of_nat_of_char)
  then show ?thesis using of_char_less_256 [of c] by (simp add: unat_of_nat)
qed

lemma less_16_cases:
  "(k::nat) < 16 \<Longrightarrow> k = 0 \<or> k = 1 \<or> k = 2 \<or> k = 3 \<or> k = 4 \<or> k = 5 \<or> k = 6 \<or> k = 7 \<or> k = 8
     \<or> k = 9 \<or> k = 10 \<or> k = 11 \<or> k = 12 \<or> k = 13 \<or> k = 14 \<or> k = 15"
  by arith

lemma hex_char_of_nat:
  assumes "k < 16"
  shows "hex_char (of_nat k) = hex_digit k"
proof -
  from assms less_16_cases [of k]
  have "k = 0 \<or> k = 1 \<or> k = 2 \<or> k = 3 \<or> k = 4 \<or> k = 5 \<or> k = 6 \<or> k = 7 \<or> k = 8
     \<or> k = 9 \<or> k = 10 \<or> k = 11 \<or> k = 12 \<or> k = 13 \<or> k = 14 \<or> k = 15" by blast
  then show ?thesis
    by (elim disjE) (simp_all add: hex_char_def hex_digit_def char_of_def)
qed

lemma hex_char_hex_digit: "unat d < 16 \<Longrightarrow> hex_char d = hex_digit (unat d)"
  using hex_char_of_nat [of "unat d"] by simp

lemma unat_high_nibble: "unat (drop_bit 4 (of_char c :: uint8_t)) = of_char c div 16"
  by (simp add: unat_drop_bit_eq unat_of_char drop_bit_eq_div unat_div)

lemma unat_low_nibble: "unat ((of_char c :: uint8_t) AND 15) = of_char c mod 16"
proof -
  have "(15 :: uint8_t) = mask 4" by (simp add: mask_eq_exp_minus_1)
  then have "(of_char c :: uint8_t) AND 15 = take_bit 4 (of_char c)"
    by (simp add: take_bit_eq_mask)
  then show ?thesis
    by (simp add: unsigned_take_bit_eq unat_of_char take_bit_eq_mod unat_mod)
qed

lemma hex_char_high: "hex_char (drop_bit 4 (of_char c :: uint8_t)) = hex_digit (of_char c div 16)"
proof -
  have "(of_char c :: nat) div 16 < 16" using of_char_less_256 [of c] by arith
  then have "unat (drop_bit 4 (of_char c :: uint8_t)) < 16" by (simp add: unat_high_nibble)
  then show ?thesis using hex_char_hex_digit unat_high_nibble by metis
qed

lemma hex_char_low: "hex_char ((of_char c :: uint8_t) AND 15) = hex_digit (of_char c mod 16)"
proof -
  have "unat ((of_char c :: uint8_t) AND 15) < 16" by (simp add: unat_low_nibble)
  then show ?thesis using hex_char_hex_digit unat_low_nibble by metis
qed

lemma char_eq_iff_nat: "c = d \<longleftrightarrow> (of_char c :: nat) = of_char d"
  by simp

lemma escape_guard_nat:
  "((of_char c :: uint8_t) < 0x20 \<or> (of_char c :: uint8_t) \<ge> 0x80 \<or> (of_char c :: uint8_t) = 0x60
      \<or> (of_char c :: uint8_t) = 0x5C) \<longleftrightarrow>
   ((of_char c :: nat) < 0x20 \<or> (of_char c :: nat) \<ge> 0x80 \<or> c = CHR 0x60 \<or> c = CHR 0x5C)"
  by (simp add: word_less_nat_alt word_le_nat_alt word_unat_eq_iff unat_of_char
      char_eq_iff_nat [of c])

lemma Error_lshift_char_unfold:
  "Error_lshift_char e c =
     e\<lparr>error := error e @
       (if (of_char c :: nat) < 0x20 \<or> (of_char c :: nat) \<ge> 0x80 \<or> c = CHR 0x60 \<or> c = CHR 0x5C then
          [CHR 0x5C] @
          (if c = CHR 0x0A then ''n'' else if c = CHR 0x0D then ''r'' else if c = CHR 0x09 then ''t''
           else if c = CHR 0x5C then [CHR 0x5C] else if c = CHR 0x60 then [CHR 0x60]
           else [CHR 0x5C, CHR ''x'', hex_digit (of_char c div 16), hex_digit (of_char c mod 16)])
        else [c])\<rparr>"
  unfolding Error_lshift_char_def Let_def escape_guard_nat hex_char_high hex_char_low
  by simp

text \<open>
  C6, as the claim states it, fails: the byte \<open>0x7F\<close> (DEL) is outside printable ASCII, so
  the claim has it appended as backslash, \<open>x\<close>, \<open>7\<close>, \<open>f\<close>; the guard of the operator is
  \<^verbatim>\<open>uc < 0x20 || uc >= 0x80\<close>, and the byte is appended as it is.
\<close>

theorem Error_lshift_char_del_counterexample:
  "error (Error_lshift_char (Error_ctor PyExc_Exception) (CHR 0x7F)) \<noteq>
   error (Error_ctor PyExc_Exception) @ spec_escape_char (CHR 0x7F)"
  by (simp add: Error_lshift_char_unfold Error_ctor_def spec_escape_char_def printable_ascii_def)

text \<open>
  C6, amended: for every byte \<open>c\<close>, the character append operator leaves the class of the
  error alone and appends to its message: \<open>c\<close> itself when \<open>0x20 \<le> c < 0x80\<close> (printable
  ASCII and DEL) and \<open>c\<close> is neither backtick nor backslash; backslash and \<open>n\<close> for newline,
  backslash and \<open>r\<close> for carriage return, backslash and \<open>t\<close> for tab, two backslashes for
  backslash, backslash and backtick for backtick; and for every other byte (below \<open>0x20\<close>
  or from \<open>0x80\<close> up) a text that starts with a backslash and ends with backslash, \<open>x\<close>
  and the two lowercase hexadecimal digits of the byte.
\<close>

theorem Error_lshift_char_escapes:
  "pycls (Error_lshift_char e c) = pycls e \<and>
   (0x20 \<le> (of_char c :: nat) \<and> (of_char c :: nat) < 0x80 \<and> c \<noteq> CHR 0x60 \<and> c \<noteq> CHR 0x5C \<longrightarrow>
      error (Error_lshift_char e c) = error e @ [c]) \<and>
   (c = CHR 0x0A \<longrightarrow> error (Error_lshift_char e c) = error e @ [CHR 0x5C, CHR ''n'']) \<and>
   (c = CHR 0x0D \<longrightarrow> error (Error_lshift_char e c) = error e @ [CHR 0x5C, CHR ''r'']) \<and>
   (c = CHR 0x09 \<longrightarrow> error (Error_lshift_char e c) = error e @ [CHR 0x5C, CHR ''t'']) \<and>
   (c = CHR 0x5C \<longrightarrow> error (Error_lshift_char e c) = error e @ [CHR 0x5C, CHR 0x5C]) \<and>
   (c = CHR 0x60 \<longrightarrow> error (Error_lshift_char e c) = error e @ [CHR 0x5C, CHR 0x60]) \<and>
   (((of_char c :: nat) < 0x20 \<or> 0x80 \<le> (of_char c :: nat)) \<and>
      c \<noteq> CHR 0x0A \<and> c \<noteq> CHR 0x0D \<and> c \<noteq> CHR 0x09 \<longrightarrow>
      prefix (error e @ [CHR 0x5C]) (error (Error_lshift_char e c)) \<and>
      suffix [CHR 0x5C, CHR ''x'', hex_digit (of_char c div 16), hex_digit (of_char c mod 16)]
        (error (Error_lshift_char e c)))"
proof -
  have cls: "pycls (Error_lshift_char e c) = pycls e"
    by (simp add: Error_lshift_char_unfold)
  have verbatim: "error (Error_lshift_char e c) = error e @ [c]"
    if "0x20 \<le> (of_char c :: nat) \<and> (of_char c :: nat) < 0x80 \<and> c \<noteq> CHR 0x60 \<and> c \<noteq> CHR 0x5C"
    using that by (simp add: Error_lshift_char_unfold)
  have nl: "error (Error_lshift_char e (CHR 0x0A)) = error e @ [CHR 0x5C, CHR ''n'']"
    by (simp add: Error_lshift_char_unfold)
  have cr: "error (Error_lshift_char e (CHR 0x0D)) = error e @ [CHR 0x5C, CHR ''r'']"
    by (simp add: Error_lshift_char_unfold)
  have tab: "error (Error_lshift_char e (CHR 0x09)) = error e @ [CHR 0x5C, CHR ''t'']"
    by (simp add: Error_lshift_char_unfold)
  have bs: "error (Error_lshift_char e (CHR 0x5C)) = error e @ [CHR 0x5C, CHR 0x5C]"
    by (simp add: Error_lshift_char_unfold)
  have bt: "error (Error_lshift_char e (CHR 0x60)) = error e @ [CHR 0x5C, CHR 0x60]"
    by (simp add: Error_lshift_char_unfold)
  have other:
    "prefix (error e @ [CHR 0x5C]) (error (Error_lshift_char e c)) \<and>
     suffix [CHR 0x5C, CHR ''x'', hex_digit (of_char c div 16), hex_digit (of_char c mod 16)]
       (error (Error_lshift_char e c))"
    if h: "((of_char c :: nat) < 0x20 \<or> 0x80 \<le> (of_char c :: nat)) \<and>
      c \<noteq> CHR 0x0A \<and> c \<noteq> CHR 0x0D \<and> c \<noteq> CHR 0x09"
  proof -
    from h have "c \<noteq> CHR 0x60" "c \<noteq> CHR 0x5C" by auto
    with h have out: "error (Error_lshift_char e c) =
        error e @ [CHR 0x5C] @
          [CHR 0x5C, CHR ''x'', hex_digit (of_char c div 16), hex_digit (of_char c mod 16)]"
      by (simp add: Error_lshift_char_unfold)
    have "prefix (error e @ [CHR 0x5C]) (error (Error_lshift_char e c))"
      unfolding out by (simp add: prefix_def)
    moreover have "suffix
        [CHR 0x5C, CHR ''x'', hex_digit (of_char c div 16), hex_digit (of_char c mod 16)]
        (error (Error_lshift_char e c))"
      unfolding out by (simp add: suffix_def)
    ultimately show ?thesis by simp
  qed
  from cls verbatim nl cr tab bs bt other show ?thesis by blast
qed

theorem Error_lshift_char_escapes_witness:
  "error (Error_lshift_char (Error_ctor PyExc_Exception) (CHR ''a'')) = ''a'' \<and>
   error (Error_lshift_char (Error_ctor PyExc_Exception) (CHR 0x7F)) = [CHR 0x7F] \<and>
   error (Error_lshift_char (Error_ctor PyExc_Exception) (CHR 0x0A)) = [CHR 0x5C, CHR ''n''] \<and>
   error (Error_lshift_char (Error_ctor PyExc_Exception) (CHR 0x0D)) = [CHR 0x5C, CHR ''r''] \<and>
   error (Error_lshift_char (Error_ctor PyExc_Exception) (CHR 0x09)) = [CHR 0x5C, CHR ''t''] \<and>
   error (Error_lshift_char (Error_ctor PyExc_Exception) (CHR 0x5C)) = [CHR 0x5C, CHR 0x5C] \<and>
   error (Error_lshift_char (Error_ctor PyExc_Exception) (CHR 0x60)) = [CHR 0x5C, CHR 0x60] \<and>
   suffix [CHR 0x5C, CHR ''x'', CHR ''e'', CHR ''9'']
     (error (Error_lshift_char (Error_ctor PyExc_Exception) (CHR 0xE9)))"
  using Error_lshift_char_escapes [of "Error_ctor PyExc_Exception" "CHR ''a''"]
    Error_lshift_char_escapes [of "Error_ctor PyExc_Exception" "CHR 0x7F"]
    Error_lshift_char_escapes [of "Error_ctor PyExc_Exception" "CHR 0x0A"]
    Error_lshift_char_escapes [of "Error_ctor PyExc_Exception" "CHR 0x0D"]
    Error_lshift_char_escapes [of "Error_ctor PyExc_Exception" "CHR 0x09"]
    Error_lshift_char_escapes [of "Error_ctor PyExc_Exception" "CHR 0x5C"]
    Error_lshift_char_escapes [of "Error_ctor PyExc_Exception" "CHR 0x60"]
    Error_lshift_char_escapes [of "Error_ctor PyExc_Exception" "CHR 0xE9"]
  by (simp add: Error_ctor_def hex_digit_def)

text \<open>
  What the operator appends for the remaining bytes: the backslash written before the
  case distinction and the one of the literal \<^verbatim>\<open>"\\x"\<close> both reach the stream, so the byte
  \<open>0x01\<close> is appended as two backslashes, \<open>x\<close>, \<open>0\<close>, \<open>1\<close>.
\<close>

lemma Error_lshift_char_hex_byte:
  "error (Error_lshift_char (Error_ctor PyExc_Exception) (CHR 0x01)) =
     [CHR 0x5C, CHR 0x5C, CHR ''x'', CHR ''0'', CHR ''1'']"
  by (simp add: Error_lshift_char_unfold Error_ctor_def hex_digit_def)

section \<open>Verification: capture and restore of the pending error\<close>

text \<open>
  C1: for every state, with an error pending or none, constructing a \<open>PyError\<close> and then
  calling its \<open>to_python\<close> leaves the error indicator as it was before the capture; in
  between nothing is pending; afterwards the three handles of the \<open>PyError\<close> are null. The
  rest of the state is untouched too, but for the progress manager, which the constructor
  tells of a captured interrupt.
\<close>

theorem PyError_capture_restore_roundtrip:
  "PyError_ctor w = (p, w1) \<Longrightarrow> PyError_to_python p w1 = (p', w2) \<Longrightarrow>
   tstate w2 = tstate w \<and>
   exc_type p' = nullptr \<and> exc_value p' = nullptr \<and> exc_traceback p' = nullptr \<and>
   tstate w1 = \<lparr>curexc_type = nullptr, curexc_value = nullptr, curexc_traceback = nullptr\<rparr> \<and>
   w2 = (if curexc_type (tstate w) = PyExc_KeyboardInterrupt then set_status_cancelled w else w)"
  by (auto simp: PyError_ctor_def PyError_to_python_def PyErr_Fetch_def PyErr_Restore_def
      PyError_is_keyboard_interrupt_def set_status_cancelled_def Let_def split: if_splits)

theorem PyError_capture_restore_roundtrip_witness:
  "tstate (snd (PyError_to_python
       (fst (PyError_ctor (PyErr_Restore PyExc_KeyboardInterrupt (PyObj 1) (PyObj 2) idle_world)))
       (snd (PyError_ctor (PyErr_Restore PyExc_KeyboardInterrupt (PyObj 1) (PyObj 2) idle_world))))) =
     \<lparr>curexc_type = PyExc_KeyboardInterrupt, curexc_value = PyObj 1, curexc_traceback = PyObj 2\<rparr> \<and>
   tstate (snd (PyError_to_python
       (fst (PyError_ctor idle_world)) (snd (PyError_ctor idle_world)))) =
     \<lparr>curexc_type = nullptr, curexc_value = nullptr, curexc_traceback = nullptr\<rparr>"
proof -
  let ?w = "PyErr_Restore PyExc_KeyboardInterrupt (PyObj 1) (PyObj 2) idle_world"
  have "tstate (snd (PyError_to_python (fst (PyError_ctor ?w)) (snd (PyError_ctor ?w)))) = tstate ?w"
    by (rule PyError_capture_restore_roundtrip
      [of ?w "fst (PyError_ctor ?w)" "snd (PyError_ctor ?w)"
          "fst (PyError_to_python (fst (PyError_ctor ?w)) (snd (PyError_ctor ?w)))"
          "snd (PyError_to_python (fst (PyError_ctor ?w)) (snd (PyError_ctor ?w)))",
       THEN conjunct1]) simp_all
  moreover have "tstate (snd (PyError_to_python
       (fst (PyError_ctor idle_world)) (snd (PyError_ctor idle_world)))) = tstate idle_world"
    by (rule PyError_capture_restore_roundtrip
      [of idle_world "fst (PyError_ctor idle_world)" "snd (PyError_ctor idle_world)"
          "fst (PyError_to_python (fst (PyError_ctor idle_world)) (snd (PyError_ctor idle_world)))"
          "snd (PyError_to_python (fst (PyError_ctor idle_world)) (snd (PyError_ctor idle_world)))",
       THEN conjunct1]) simp_all
  ultimately show ?thesis by (simp add: PyErr_Restore_def idle_world_def)
qed

text \<open>
  C3: \<open>PyError::is_keyboard_interrupt\<close> answers true exactly when the captured type handle
  is \<open>PyExc_KeyboardInterrupt\<close>. Capturing a pending interrupt calls the progress manager's
  \<open>set_status_cancelled\<close> once and leaves nothing pending in the interpreter (nothing is
  handed to the error sink); capturing anything else does not call it. The base
  \<open>Error::is_keyboard_interrupt\<close> always answers false.
\<close>

theorem PyError_cancellation_classified:
  "(PyError_is_keyboard_interrupt p \<longleftrightarrow> exc_type p = PyExc_KeyboardInterrupt) \<and>
   (curexc_type (tstate w) = PyExc_KeyboardInterrupt \<longrightarrow>
      PyError_is_keyboard_interrupt (fst (PyError_ctor w)) \<and>
      status_cancelled_calls (snd (PyError_ctor w)) = Suc (status_cancelled_calls w) \<and>
      tstate (snd (PyError_ctor w)) =
        \<lparr>curexc_type = nullptr, curexc_value = nullptr, curexc_traceback = nullptr\<rparr>) \<and>
   (curexc_type (tstate w) \<noteq> PyExc_KeyboardInterrupt \<longrightarrow>
      \<not> PyError_is_keyboard_interrupt (fst (PyError_ctor w)) \<and>
      status_cancelled_calls (snd (PyError_ctor w)) = status_cancelled_calls w) \<and>
   \<not> Error_is_keyboard_interrupt e"
  by (simp add: PyError_ctor_def PyError_is_keyboard_interrupt_def PyErr_Fetch_def
      set_status_cancelled_def Error_is_keyboard_interrupt_def Let_def)

theorem PyError_cancellation_classified_witness:
  "PyError_is_keyboard_interrupt
     (fst (PyError_ctor (PyErr_Restore PyExc_KeyboardInterrupt (PyObj 1) (PyObj 2) idle_world))) \<and>
   status_cancelled_calls
     (snd (PyError_ctor (PyErr_Restore PyExc_KeyboardInterrupt (PyObj 1) (PyObj 2) idle_world))) = 1 \<and>
   \<not> PyError_is_keyboard_interrupt
     (fst (PyError_ctor (PyErr_SetString PyExc_RuntimeError ''failed'' idle_world))) \<and>
   status_cancelled_calls
     (snd (PyError_ctor (PyErr_SetString PyExc_RuntimeError ''failed'' idle_world))) = 0"
  using PyError_cancellation_classified
    [of undefined "PyErr_Restore PyExc_KeyboardInterrupt (PyObj 1) (PyObj 2) idle_world" undefined]
    PyError_cancellation_classified
    [of undefined "PyErr_SetString PyExc_RuntimeError ''failed'' idle_world" undefined]
  by (simp add: PyErr_Restore_def PyErr_SetString_def idle_world_def)

section \<open>Verification: the suppression guard\<close>

text \<open>
  C2: when an error A is pending as the guard is constructed, the constructor takes it
  (nothing is pending inside the scope), and the destructor, run in whatever state the
  scope has left, with a different error B pending or not, makes A the pending error
  again and touches nothing else: B is gone.
\<close>

theorem HidePythonError_restores_saved:
  "PyErr_Occurred w \<noteq> nullptr \<Longrightarrow> HidePythonError_ctor w = (h, w1) \<Longrightarrow>
   tstate w1 = \<lparr>curexc_type = nullptr, curexc_value = nullptr, curexc_traceback = nullptr\<rparr> \<and>
   tstate (HidePythonError_dtor h w2) = tstate w \<and>
   HidePythonError_dtor h w2 = w2\<lparr>tstate := tstate w\<rparr>"
  by (auto simp: HidePythonError_ctor_def HidePythonError_dtor_def PyErr_Occurred_def
      PyErr_Fetch_def PyErr_Restore_def Let_def)

theorem HidePythonError_restores_saved_witness:
  "PyErr_Occurred (PyErr_SetString PyExc_Exception ''A'' idle_world) \<noteq> nullptr \<and>
   tstate (HidePythonError_dtor
       (fst (HidePythonError_ctor (PyErr_SetString PyExc_Exception ''A'' idle_world)))
       (PyErr_SetString PyExc_RuntimeError ''B''
          (snd (HidePythonError_ctor (PyErr_SetString PyExc_Exception ''A'' idle_world))))) =
     \<lparr>curexc_type = PyExc_Exception, curexc_value = PyUnicode ''A'', curexc_traceback = nullptr\<rparr>"
  using HidePythonError_restores_saved
    [of "PyErr_SetString PyExc_Exception ''A'' idle_world"
        "fst (HidePythonError_ctor (PyErr_SetString PyExc_Exception ''A'' idle_world))"
        "snd (HidePythonError_ctor (PyErr_SetString PyExc_Exception ''A'' idle_world))"
        "PyErr_SetString PyExc_RuntimeError ''B''
          (snd (HidePythonError_ctor (PyErr_SetString PyExc_Exception ''A'' idle_world)))"]
  by (simp add: PyErr_SetString_def PyErr_Occurred_def idle_world_def)

text \<open>
  C10: when nothing is pending as the guard is constructed, the constructor changes
  nothing and the destructor, run in whatever state the scope has left, changes nothing
  either: an error B that the scope left pending stays pending.
\<close>

theorem HidePythonError_empty_capture:
  "PyErr_Occurred w = nullptr \<Longrightarrow> HidePythonError_ctor w = (h, w1) \<Longrightarrow>
   w1 = w \<and> ptype h = nullptr \<and> HidePythonError_dtor h w2 = w2"
  by (auto simp: HidePythonError_ctor_def HidePythonError_dtor_def)

theorem HidePythonError_empty_capture_witness:
  "PyErr_Occurred idle_world = nullptr \<and>
   tstate (HidePythonError_dtor (fst (HidePythonError_ctor idle_world))
       (PyErr_SetString PyExc_RuntimeError ''B'' (snd (HidePythonError_ctor idle_world)))) =
     \<lparr>curexc_type = PyExc_RuntimeError, curexc_value = PyUnicode ''B'',
        curexc_traceback = nullptr\<rparr>"
proof -
  let ?h = "fst (HidePythonError_ctor idle_world)"
  let ?w1 = "snd (HidePythonError_ctor idle_world)"
  let ?w2 = "PyErr_SetString PyExc_RuntimeError ''B'' ?w1"
  have none_pending: "PyErr_Occurred idle_world = nullptr"
    by (simp add: PyErr_Occurred_def idle_world_def)
  have "HidePythonError_dtor ?h ?w2 = ?w2"
    by (rule HidePythonError_empty_capture
        [of idle_world ?h ?w1 ?w2, THEN conjunct2, THEN conjunct2]) (simp_all add: none_pending)
  then have "tstate (HidePythonError_dtor ?h ?w2) = tstate ?w2"
    by simp
  also have "tstate ?w2 =
      \<lparr>curexc_type = PyExc_RuntimeError, curexc_value = PyUnicode ''B'',
         curexc_traceback = nullptr\<rparr>"
    by (simp add: PyErr_SetString_def)
  finally show ?thesis using none_pending by blast
qed

section \<open>Verification: reporting and warnings\<close>

text \<open>
  C7: \<open>Error::to_python\<close> always returns, in every state and for every error object.
  When the message renders, the class of the error and the message are installed as the
  pending failure; when rendering throws, the handler catches the exception and installs
  \<open>PyExc_RuntimeError\<close> with the message of the caught exception. No exception leaves
  the function.
\<close>

theorem Error_to_python_never_propagates:
  "Error_to_python own_what e w =
     Inr (case alloc_failure w of
            None \<Rightarrow> PyErr_SetString (pycls e) (c_str (error e)) w
          | Some m \<Rightarrow> PyErr_SetString PyExc_RuntimeError m w)"
  by (simp add: Error_to_python_def try_catch_def ostringstream_str_def split: option.splits)

theorem Error_to_python_never_propagates_witness:
  "Error_to_python (\<lambda>e. [])
     (Error_lshift_string (Error_ctor PyExc_AssertionError) ''bad value'')
     (idle_world\<lparr>alloc_failure := Some ''std::bad_alloc''\<rparr>) =
   Inr (PyErr_SetString PyExc_RuntimeError ''std::bad_alloc''
     (idle_world\<lparr>alloc_failure := Some ''std::bad_alloc''\<rparr>)) \<and>
   Error_to_python (\<lambda>e. [])
     (Error_lshift_string (Error_ctor PyExc_AssertionError) ''bad value'') idle_world =
   Inr (PyErr_SetString PyExc_AssertionError ''bad value'' idle_world)"
  using Error_to_python_never_propagates
    [of "\<lambda>e. []" "Error_lshift_string (Error_ctor PyExc_AssertionError) ''bad value''"
        "idle_world\<lparr>alloc_failure := Some ''std::bad_alloc''\<rparr>"]
    Error_to_python_never_propagates
    [of "\<lambda>e. []" "Error_lshift_string (Error_ctor PyExc_AssertionError) ''bad value''"
        idle_world]
  by (simp add: idle_world_def Error_lshift_string_def Error_ctor_def c_str_def)

text \<open>
  C4: \<open>exception_to_python\<close> always returns, and the first thing it does is assert that
  the team size is zero. In a debug build, a call with a nonzero team size is reported
  as one more assertion failure, and a call with team size zero as none; in a release
  build nothing is checked.
\<close>

theorem exception_to_python_checks_quiescence:
  "\<exists>e' w'. exception_to_python own_what e w = Inr (e', w') \<and>
     assertion_failures w' =
       (if debug_build w \<and> num_threads_in_team w \<noteq> 0
        then Suc (assertion_failures w) else assertion_failures w)"
proof (cases e)
  case (Exc_Error err)
  then show ?thesis
    by (simp add: exception_to_python_def Let_def wassert_def Error_to_python_def try_catch_def
        ostringstream_str_def PyErr_SetString_def split: option.splits)
next
  case (Exc_PyError p)
  then show ?thesis
    by (simp add: exception_to_python_def Let_def wassert_def PyError_to_python_def
        PyErr_Restore_def)
next
  case (Exc_std msg)
  then show ?thesis
    by (simp add: exception_to_python_def Let_def wassert_def PyErr_SetString_def)
qed

theorem exception_to_python_checks_quiescence_witness:
  "\<exists>e' w'. exception_to_python (\<lambda>e. []) (Exc_std ''failed'')
       (idle_world\<lparr>num_threads_in_team := 4\<rparr>) = Inr (e', w') \<and>
     assertion_failures w' = 1"
  using exception_to_python_checks_quiescence
    [of "\<lambda>e. []" "Exc_std ''failed''" "idle_world\<lparr>num_threads_in_team := 4\<rparr>"]
  by (simp add: idle_world_def)

text \<open>
  C8: once the message of the warning is rendered, \<open>Warning::emit\<close> hands it to
  \<open>PyErr_WarnEx\<close> with the class of the warning and stack level 1. It throws exactly when
  \<open>PyErr_WarnEx\<close> returns nonzero, and what it throws is the \<open>PyError\<close> constructed in the
  state that \<open>PyErr_WarnEx\<close> left, which captures the error pending there; when
  \<open>PyErr_WarnEx\<close> returns zero, \<open>emit\<close> returns normally in that state.
\<close>

theorem Warning_emit_escalation:
  "ostringstream_str wn w = Inr errstr \<Longrightarrow>
   PyErr_WarnEx (pycls wn) (c_str errstr) 1 w = (ret, w1) \<Longrightarrow>
   Warning_emit wn w = (r, w') \<Longrightarrow>
   ((\<exists>ex. r = Inl ex) \<longleftrightarrow> ret \<noteq> 0) \<and>
   (ret \<noteq> 0 \<longrightarrow> r = Inl (Exc_PyError (fst (PyError_ctor w1))) \<and> w' = snd (PyError_ctor w1)) \<and>
   (ret = 0 \<longrightarrow> r = Inr () \<and> w' = w1)"
  by (auto simp: Warning_emit_def Let_def split: prod.splits if_splits)

theorem Warning_emit_escalation_witness:
  "fst (Warning_emit (Error_lshift_string (Error_ctor PyExc_FutureWarning) ''old'')
         (idle_world\<lparr>warn_escalates := (\<lambda>category msg. True)\<rparr>)) =
     Inl (Exc_PyError \<lparr>pycls = nullptr, error = [], exc_type = PyExc_FutureWarning,
       exc_value = PyUnicode ''old'', exc_traceback = nullptr\<rparr>) \<and>
   fst (Warning_emit (Error_lshift_string (Error_ctor PyExc_FutureWarning) ''old'') idle_world) =
     Inr ()"
proof -
  let ?wn = "Error_lshift_string (Error_ctor PyExc_FutureWarning) ''old''"
  let ?strict = "idle_world\<lparr>warn_escalates := (\<lambda>category msg. True)\<rparr>"
  have rendered: "ostringstream_str ?wn ?strict = Inr ''old''"
    "ostringstream_str ?wn idle_world = Inr ''old''"
    by (simp_all add: ostringstream_str_def idle_world_def Error_lshift_string_def Error_ctor_def)
  have cls: "pycls ?wn = PyExc_FutureWarning"
    by (simp add: Error_lshift_string_def Error_ctor_def)
  have escalated: "PyErr_WarnEx (pycls ?wn) (c_str ''old'') 1 ?strict =
      (- 1, PyErr_SetString PyExc_FutureWarning ''old'' ?strict)"
    by (simp add: PyErr_WarnEx_def cls c_str_def idle_world_def)
  have shown: "PyErr_WarnEx (pycls ?wn) (c_str ''old'') 1 idle_world =
      (0, idle_world\<lparr>warnings_shown := [(PyExc_FutureWarning, ''old'')]\<rparr>)"
    by (simp add: PyErr_WarnEx_def cls c_str_def idle_world_def)
  have "fst (Warning_emit ?wn ?strict) =
      Inl (Exc_PyError (fst (PyError_ctor (PyErr_SetString PyExc_FutureWarning ''old'' ?strict))))"
    using Warning_emit_escalation [OF rendered(1) escalated,
        of "fst (Warning_emit ?wn ?strict)" "snd (Warning_emit ?wn ?strict)"]
    by simp
  moreover have "fst (PyError_ctor (PyErr_SetString PyExc_FutureWarning ''old'' ?strict)) =
      \<lparr>pycls = nullptr, error = [], exc_type = PyExc_FutureWarning,
        exc_value = PyUnicode ''old'', exc_traceback = nullptr\<rparr>"
    by (simp add: PyError_ctor_def PyErr_Fetch_def PyErr_SetString_def
        PyError_is_keyboard_interrupt_def Let_def)
  moreover have "fst (Warning_emit ?wn idle_world) = Inr ()"
    using Warning_emit_escalation [OF rendered(2) shown,
        of "fst (Warning_emit ?wn idle_world)" "snd (Warning_emit ?wn idle_world)"]
    by simp
  ultimately show ?thesis by simp
qed

section \<open>Verification: the self-driving loop\<close>

lemma execute_loop_stops_at_null:
  "pulled job ith s ts s' \<Longrightarrow> get_next_task job ith s' = (None, sf) \<Longrightarrow>
   execute_loop job ith s = Some (None, sf)"
  by (induction rule: pulled.induct) (simp_all add: execute_loop.simps)

lemma execute_loop_propagates:
  "pulled job ith s ts s' \<Longrightarrow> get_next_task job ith s' = (Some t, s1) \<Longrightarrow>
   execute t None s1 = (Some e, sf) \<Longrightarrow>
   execute_loop job ith s = Some (Some e, sf)"
  by (induction rule: pulled.induct) (simp_all add: execute_loop.simps)

lemma pulled_of_execute_loop:
  assumes "execute_loop job ith s = Some y"
  shows "\<exists>ts s'. pulled job ith s ts s' \<and>
      ((fst y = None \<and> get_next_task job ith s' = (None, snd y)) \<or>
       (\<exists>t s1 e. fst y = Some e \<and> get_next_task job ith s' = (Some t, s1) \<and>
          execute t None s1 = (Some e, snd y)))"
  using assms
proof (induction job ith s y rule: execute_loop.raw_induct [rotated 1, consumes 1])
  case (1 loop job ith s y)
  let ?stops = "\<lambda>s'. (fst y = None \<and> get_next_task job ith s' = (None, snd y)) \<or>
       (\<exists>t s1 e. fst y = Some e \<and> get_next_task job ith s' = (Some t, s1) \<and>
          execute t None s1 = (Some e, snd y))"
  obtain ot s1 where g: "get_next_task job ith s = (ot, s1)"
    by (cases "get_next_task job ith s")
  show ?case
  proof (cases ot)
    case None
    with g 1(2) have "y = (None, s1)" by simp
    with g None have "?stops s" by simp
    then show ?thesis using pulled_Nil [of job ith s] by blast
  next
    case (Some t)
    note ot = this
    obtain oe s2 where x: "execute t None s1 = (oe, s2)"
      by (cases "execute t None s1")
    show ?thesis
    proof (cases oe)
      case None
      with g ot x 1(2) have "loop job ith s2 = Some y" by simp
      from 1(1) [OF this] obtain ts s' where
        p: "pulled job ith s2 ts s'" and st: "?stops s'" by blast
      from g ot x None p have "pulled job ith s (t # ts) s'"
        by (simp add: pulled_Cons)
      with st show ?thesis by blast
    next
      case (Some e)
      with g ot x 1(2) have "y = (Some e, s2)" by simp
      with g ot x Some have "?stops s" by simp
      then show ?thesis using pulled_Nil [of job ith s] by blast
    qed
  qed
qed

text \<open>
  C9: \<open>execute_in_current_thread\<close> returns in state \<open>sf\<close>, normally (\<open>r = None\<close>) or with
  an exception (\<open>r = Some e\<close>), exactly when there are tasks \<open>ts\<close> such that the pulls for
  the calling thread's own index return \<open>ts\<close> in this order, each executed after its pull
  and before the next pull without throwing, and then either the next pull returns the
  null pointer, \<open>sf\<close> being the state after that pull and the return normal, or the next
  pull returns a task whose \<open>execute\<close> throws \<open>e\<close>, which leaves the function with the
  state \<open>sf\<close> that the task left, no further task being pulled.
\<close>

theorem execute_in_current_thread_pull_order:
  "execute_in_current_thread this_thread_index job s = Some (r, sf) \<longleftrightarrow>
   (\<exists>ts s'. pulled job (this_thread_index s) s ts s' \<and>
      ((r = None \<and> get_next_task job (this_thread_index s) s' = (None, sf)) \<or>
       (\<exists>t s1 e. r = Some e \<and> get_next_task job (this_thread_index s) s' = (Some t, s1) \<and>
          execute t None s1 = (Some e, sf))))"
  (is "?L \<longleftrightarrow> ?R")
proof
  assume ?L
  then have "execute_loop job (this_thread_index s) s = Some (r, sf)"
    by (simp add: execute_in_current_thread_def)
  from pulled_of_execute_loop [OF this] show ?R by simp
next
  assume ?R
  then obtain ts s' where p: "pulled job (this_thread_index s) s ts s'"
    and d: "(r = None \<and> get_next_task job (this_thread_index s) s' = (None, sf)) \<or>
       (\<exists>t s1 e. r = Some e \<and> get_next_task job (this_thread_index s) s' = (Some t, s1) \<and>
          execute t None s1 = (Some e, sf))" by blast
  from d have "execute_loop job (this_thread_index s) s = Some (r, sf)"
  proof
    assume "r = None \<and> get_next_task job (this_thread_index s) s' = (None, sf)"
    with p show ?thesis using execute_loop_stops_at_null by fastforce
  next
    assume "\<exists>t s1 e. r = Some e \<and> get_next_task job (this_thread_index s) s' = (Some t, s1) \<and>
          execute t None s1 = (Some e, sf)"
    with p show ?thesis using execute_loop_propagates by fastforce
  qed
  then show ?L by (simp add: execute_in_current_thread_def)
qed

theorem execute_in_current_thread_pull_order_witness:
  "execute_in_current_thread (\<lambda>s. 0) queue_job ([1, 2], 0) = Some (None, ([], 3)) \<and>
   execute_in_current_thread (\<lambda>s. 0) queue_job ([1, 0, 2], 0) = Some (Some ''zero'', ([2], 1))"
proof -
  have p1: "pulled queue_job 0 ([1, 2], 0) [add_task 1, add_task 2] ([], 3)"
    by (rule pulled_Cons [where ?s1.0 = "([2], 0)" and ?s2.0 = "([2], 1)"],
        simp add: queue_job_def, simp add: add_task_def,
        rule pulled_Cons [where ?s1.0 = "([], 1)" and ?s2.0 = "([], 3)"],
        simp add: queue_job_def, simp add: add_task_def, rule pulled_Nil)
  have n1: "get_next_task queue_job 0 ([], 3) = (None, ([], 3))"
    by (simp add: queue_job_def)
  have p2: "pulled queue_job 0 ([1, 0, 2], 0) [add_task 1] ([0, 2], 1)"
    by (rule pulled_Cons [where ?s1.0 = "([0, 2], 0)" and ?s2.0 = "([0, 2], 1)"],
        simp add: queue_job_def, simp add: add_task_def, rule pulled_Nil)
  have n2: "get_next_task queue_job 0 ([0, 2], 1) = (Some (add_task 0), ([2], 1))"
    by (simp add: queue_job_def)
  have x2: "execute (add_task 0) None ([2], 1) = (Some ''zero'', ([2], 1))"
    by (simp add: add_task_def)
  have a: "execute_in_current_thread (\<lambda>s. 0) queue_job ([1, 2], 0) = Some (None, ([], 3))"
    using execute_in_current_thread_pull_order
      [of "\<lambda>s. 0" queue_job "([1, 2], 0)" None "([], 3)"] p1 n1 by blast
  have b: "execute_in_current_thread (\<lambda>s. 0) queue_job ([1, 0, 2], 0) =
      Some (Some ''zero'', ([2], 1))"
    using execute_in_current_thread_pull_order
      [of "\<lambda>s. 0" queue_job "([1, 0, 2], 0)" "Some ''zero''" "([2], 1)"] p2 n2 x2 by blast
  from a b show ?thesis by simp
qed

end
